theory Spec2Isabelle
  imports Main "HOL-Library.Sublist"
begin

section \<open>Python library functions called by utils.py\<close>

text \<open>
  Strings are \<open>string\<close>; the bytes of an uploaded file are a \<open>string\<close> as well
  (a \<open>char\<close> is one byte).
\<close>

type_synonym bytes = string

subsection \<open>str.startswith, str.endswith, str.split, os.path.join\<close>

definition startswith :: "string \<Rightarrow> string \<Rightarrow> bool" where
  "startswith s p = (take (length p) s = p)"

definition endswith :: "string \<Rightarrow> string \<Rightarrow> bool" where
  "endswith s p = (length p \<le> length s \<and> drop (length s - length p) s = p)"

text \<open>
  \<open>s.split(sep)\<close> for a one-character separator: the word being read is kept
  (reversed) in \<open>cur\<close>; every separator closes a word, the end of the string closes
  the last one, so the result is never empty (\<open>"".split(",") == [""]\<close>).
\<close>

fun split_from :: "char \<Rightarrow> string \<Rightarrow> string \<Rightarrow> string list" where
  "split_from sep cur [] = [rev cur]"
| "split_from sep cur (c # cs) =
     (if c = sep then rev cur # split_from sep [] cs
      else split_from sep (c # cur) cs)"

definition split :: "string \<Rightarrow> char \<Rightarrow> string list" where
  "split s sep = split_from sep [] s"

text \<open>
  \<open>posixpath.join(a, *p)\<close>: a component that starts with the separator (or any
  component while the path so far is empty) replaces the path; otherwise it is
  appended, with a separator unless the path already ends with one.
\<close>

definition join_step :: "string \<Rightarrow> string \<Rightarrow> string" where
  "join_step path b =
     (if startswith b ''/'' \<or> path = [] then b
      else if endswith path ''/'' then path @ b
      else path @ ''/'' @ b)"

definition os_path_join :: "string \<Rightarrow> string list \<Rightarrow> string" where
  "os_path_join a p = foldl join_step a p"

subsection \<open>datetime.strftime\<close>

record datetime =
  year :: nat
  month :: nat
  day :: nat
  hour :: nat
  minute :: nat
  second :: nat

definition digit_char :: "nat \<Rightarrow> char" where
  "digit_char n = ''0123456789'' ! (n mod 10)"

fun str_nat :: "nat \<Rightarrow> string" where
  "str_nat n = (if n < 10 then [digit_char n] else str_nat (n div 10) @ [digit_char n])"

declare str_nat.simps [simp del]

definition zero_pad :: "nat \<Rightarrow> string \<Rightarrow> string" where
  "zero_pad w s = replicate (w - length s) (CHR ''0'') @ s"

text \<open>
  The directives of \<open>strftime\<close> for date and time fields: \<open>%Y\<close> is the year with
  century, \<open>%m\<close> the month, \<open>%d\<close> the day of the month, \<open>%H\<close> the hour,
  \<open>%M\<close> the minute and \<open>%S\<close> the second, each a zero-padded decimal number.
\<close>

definition directive :: "datetime \<Rightarrow> char \<Rightarrow> string" where
  "directive dt c =
     (if c = CHR ''Y'' then zero_pad 4 (str_nat (year dt))
      else if c = CHR ''m'' then zero_pad 2 (str_nat (month dt))
      else if c = CHR ''d'' then zero_pad 2 (str_nat (day dt))
      else if c = CHR ''H'' then zero_pad 2 (str_nat (hour dt))
      else if c = CHR ''M'' then zero_pad 2 (str_nat (minute dt))
      else if c = CHR ''S'' then zero_pad 2 (str_nat (second dt))
      else [CHR ''%'', c])"

fun strftime :: "datetime \<Rightarrow> string \<Rightarrow> string" where
  "strftime dt [] = []"
| "strftime dt [c] = [c]"
| "strftime dt (c # d # rest) =
     (if c = CHR ''%'' then directive dt d @ strftime dt rest
      else c # strftime dt (d # rest))"

section \<open>The collaborators of Config\<close>

text \<open>
  What \<open>Config.__init__\<close> reads from outside itself: what
  \<open>yaml.safe_load(open("config.yml"))\<close> of line 51 gives (the exception it raises, for
  a file that is missing or unreadable or is not YAML, or the mapping it returns, taken
  to be one from strings to strings),
  the clock, \<open>int\<close> on a form string (\<open>None\<close> when it raises ValueError),
  \<open>starfit.autils.isotope.ion(s).Z\<close>, \<open>starfit.DATA_DIR\<close>,
  \<open>starfit.autils.human.time2human\<close>, whether \<open>starfit.read.Star(name, silent=True)\<close>
  returns without raising, whether \<open>validate_email(address, check_deliverability=True)\<close>
  returns without raising EmailNotValidError, and whether \<open>open(path, "wb")\<close> succeeds.
\<close>

datatype exn =
  SystemExit | RuntimeError string | KeyError string | OSError string | YAMLError

record env =
  config_yml :: "exn + (string \<rightharpoonup> string)"
  now :: datetime
  py_int :: "string \<Rightarrow> int option"
  ion_Z :: "string \<Rightarrow> int"
  DATA_DIR :: string
  time2human :: "int \<Rightarrow> string"
  Star_ok :: "string \<Rightarrow> bool"
  validate_email_ok :: "string \<Rightarrow> bool"
  open_wb_ok :: "string \<Rightarrow> bool"

text \<open>
  The form: \<open>form["stardata"]\<close> (absent: KeyError) with its \<open>filename\<close>
  (\<open>None\<close> when the field is not a file upload) and the bytes \<open>file.read()\<close>
  gives, and \<open>form.getfirst(key)\<close> (\<open>None\<close> when the field is absent).
\<close>

record upload =
  up_filename :: "string option"
  up_file :: bytes

record form =
  stardata :: "upload option"
  getfirst :: "string \<rightharpoonup> string"

type_synonym filesystem = "string \<rightharpoonup> bytes"

text \<open>
  \<open>web_config\<close> as line 51 binds it: the mapping loaded from \<open>config.yml\<close>. When
  the load raised, construction has ended before anything reads \<open>web_config\<close>, and no
  key is bound.
\<close>

definition web_config :: "env \<Rightarrow> string \<rightharpoonup> string" where
  "web_config e = (case config_yml e of Inl x \<Rightarrow> Map.empty | Inr loaded \<Rightarrow> loaded)"

section \<open>Schema validation\<close>

text \<open>
  The validator coerces each field of \<open>Config.schema\<close> with \<open>str\<close>, \<open>int\<close> or
  \<open>bool\<close> and fails when a coercion raises. \<open>str(None)\<close> is \<open>'None'\<close>,
  \<open>bool\<close> of a string is its non-emptiness and \<open>bool(None)\<close> is False, \<open>int(None)\<close>
  raises. After a coercion the value has the declared type, and every key of the schema
  is in \<open>conf\<close>, so nothing else can fail.
\<close>

definition coerce_str :: "string option \<Rightarrow> string" where
  "coerce_str v = (case v of None \<Rightarrow> ''None'' | Some s \<Rightarrow> s)"

definition coerce_int :: "env \<Rightarrow> string option \<Rightarrow> int option" where
  "coerce_int e v = (case v of None \<Rightarrow> None | Some s \<Rightarrow> py_int e s)"

definition coerce_bool :: "string option \<Rightarrow> bool" where
  "coerce_bool v = (case v of None \<Rightarrow> False | Some s \<Rightarrow> s \<noteq> [])"

record document =
  doc_email :: string
  doc_algorithm :: string
  doc_sol_size :: int
  doc_z_min :: int
  doc_z_max :: int
  doc_combine_mode :: int
  doc_pop_size :: int
  doc_time_limit :: int
  doc_database :: string
  doc_fixed :: int
  doc_plotformat :: string
  doc_z_exclude :: string
  doc_z_lolim :: string
  doc_cdf :: bool

definition validate :: "env \<Rightarrow> (string \<rightharpoonup> string) \<Rightarrow> document option" where
  "validate e conf =
     (case coerce_int e (conf ''sol_size'') of None \<Rightarrow> None | Some sol_size' \<Rightarrow>
      case coerce_int e (conf ''z_min'') of None \<Rightarrow> None | Some z_min' \<Rightarrow>
      case coerce_int e (conf ''z_max'') of None \<Rightarrow> None | Some z_max' \<Rightarrow>
      case coerce_int e (conf ''combine_mode'') of None \<Rightarrow> None | Some combine_mode' \<Rightarrow>
      case coerce_int e (conf ''pop_size'') of None \<Rightarrow> None | Some pop_size' \<Rightarrow>
      case coerce_int e (conf ''time_limit'') of None \<Rightarrow> None | Some time_limit' \<Rightarrow>
      case coerce_int e (conf ''fixed'') of None \<Rightarrow> None | Some fixed' \<Rightarrow>
        Some \<lparr> doc_email = coerce_str (conf ''email''),
               doc_algorithm = coerce_str (conf ''algorithm''),
               doc_sol_size = sol_size',
               doc_z_min = z_min',
               doc_z_max = z_max',
               doc_combine_mode = combine_mode',
               doc_pop_size = pop_size',
               doc_time_limit = time_limit',
               doc_database = coerce_str (conf ''database''),
               doc_fixed = fixed',
               doc_plotformat = coerce_str (conf ''plotformat''),
               doc_z_exclude = coerce_str (conf ''z_exclude''),
               doc_z_lolim = coerce_str (conf ''z_lolim''),
               doc_cdf = coerce_bool (conf ''cdf'') \<rparr>)"

section \<open>Config\<close>

record Config =
  email :: string
  algorithm :: string
  sol_size :: int
  z_min :: int
  z_max :: int
  combine_mode :: int
  pop_size :: int
  time_limit :: int
  database :: string
  fixed :: int
  plotformat :: string
  z_exclude :: "int list"
  z_lolim :: "int list"
  cdf :: bool
  start_time :: string
  filepath :: string
  filename :: string
  dbpath :: string
  mail :: bool
  time_eta :: string
  errors :: "string list"

text \<open>
  Lines 73 to 76, for \<open>z_exclude\<close> and \<open>z_lolim\<close> alike:
  \<open>[z for z in [I(i).Z for i in s.split(",")] if z != 0]\<close>
\<close>

definition element_list :: "env \<Rightarrow> string \<Rightarrow> int list" where
  "element_list e s = filter (\<lambda>z. z \<noteq> 0) (map (ion_Z e) (split s (CHR '','')))"

text \<open>
  Lines 78 to 86: an upload with a non-empty filename is written under \<open>/tmp\<close>; otherwise
  the bundled star is used. The result is \<open>(filepath, filename)\<close> and the file system
  after the write.
\<close>

definition save_files ::
  "env \<Rightarrow> upload \<Rightarrow> string \<Rightarrow> filesystem \<Rightarrow> exn + ((string \<times> string) \<times> filesystem)" where
  "save_files e sd start fs =
     (case up_filename sd of
        None \<Rightarrow> Inr ((os_path_join (DATA_DIR e) [''stars'', ''HE1327-2326.dat''], ''HE1327-2326.dat''), fs)
      | Some name \<Rightarrow>
          if name = [] then
            Inr ((os_path_join (DATA_DIR e) [''stars'', ''HE1327-2326.dat''], ''HE1327-2326.dat''), fs)
          else
            (let path = os_path_join ''/tmp'' [name @ start]
             in if open_wb_ok e path then Inr ((path, name), fs(path \<mapsto> up_file sd))
                else Inl (OSError path)))"

text \<open>
  Lines 93 to 97 (the time limit by algorithm), 99 to 105 (the estimated time of arrival)
  and 110 to 113 (the solution size by algorithm).
\<close>

definition time_limit_override :: "string \<Rightarrow> int \<Rightarrow> int" where
  "time_limit_override alg secs =
     (if alg = ''double'' then 60 * 15 else if alg = ''single'' then 0 else secs)"

definition eta_of :: "env \<Rightarrow> int \<Rightarrow> string" where
  "eta_of e secs =
     (if secs < 1 then ''now''
      else if secs > 600 then ''in more than 10 minutes''
      else ''in '' @ time2human e secs)"

definition sol_size_override :: "string \<Rightarrow> int \<Rightarrow> int" where
  "sol_size_override alg n =
     (if alg = ''double'' then 2 else if alg = ''single'' then 1 else n)"

text \<open>
  The message of line 108, \<open>Bad choice of "algorithm"\<close>; character 34 is the double
  quote.
\<close>

definition bad_algorithm :: string where
  "bad_algorithm = ''Bad choice of '' @ [char_of (34::nat)] @ ''algorithm'' @ [char_of (34::nat)]"

text \<open>
  Lines 146 to 176, \<open>_check_for_errors\<close>: the list \<open>errors\<close> is extended by one
  statement after the other. The bare \<open>except\<close> around \<open>Star\<close> catches whatever the
  loader raises.
\<close>

definition check_for_errors :: "env \<Rightarrow> Config \<Rightarrow> string list" where
  "check_for_errors e self =
     (let errors = [];
          errors = (if Star_ok e (filename self) then errors
                    else errors @ [''There is something wrong with this stellar data.'']);
          errors = (if sol_size self > 10
                    then errors @ [''Gene sizes greater than 10 are not supported.'']
                    else errors);
          errors = (if pop_size self > 1000
                    then errors @ [''Population sizes over 1000 are not supported.'']
                    else errors);
          errors = (if time_limit self > 60 \<and> \<not> mail self
                    then errors @ [''Results must be emailed for time limit > 60s.'']
                    else errors);
          errors = (if mail self
                    then (if validate_email_ok e (email self) then errors
                          else errors @ [email self @ '' is not a valid email.''])
                    else errors);
          errors = (if plotformat self = ''pdf'' \<and> \<not> mail self
                    then errors @ [''PDF plot format must be emailed.'']
                    else errors)
      in errors)"

text \<open>
  Lines 49 to 116, \<open>Config.__init__\<close>, in the order of the source: the load of
  \<open>config.yml\<close> (line 51), whose exception ends construction, the stardata field
  (line 54), the start time (59), the schema (61 to 71), the element lists (73 to 76),
  the upload (78 to 89), \<open>dbpath\<close> and \<open>mail\<close> (90, 91), the time limit (93 to 97),
  the estimated time of arrival (99 to 105), the algorithm check (107, 108), the solution
  size (110 to 113) and the admission checks (116). The result is the exception that ends
  construction, or the configuration with the file system after the write.
\<close>

definition Config_init :: "env \<Rightarrow> form \<Rightarrow> filesystem \<Rightarrow> exn + (Config \<times> filesystem)" where
  "Config_init e frm fs =
     (case config_yml e of
        Inl x \<Rightarrow> Inl x
      | Inr loaded \<Rightarrow>
     (case stardata frm of
        None \<Rightarrow> Inl SystemExit
      | Some sd \<Rightarrow>
     (let start = strftime (now e) ''%Y-%M-%d-%H-%M-%S'' in
      case validate e (getfirst frm) of
        None \<Rightarrow> Inl (RuntimeError ''Bad form input'')
      | Some v \<Rightarrow>
     (let zex = element_list e (doc_z_exclude v);
          zlo = element_list e (doc_z_lolim v) in
      case save_files e sd start fs of
        Inl x \<Rightarrow> Inl x
      | Inr ((path, name), fs') \<Rightarrow>
     (case loaded ''db_dir'' of
        None \<Rightarrow> Inl (KeyError ''db_dir'')
      | Some db_dir \<Rightarrow>
     (let dbp = os_path_join db_dir [doc_database v];
          ml = (doc_email v \<noteq> []);
          secs = time_limit_override (doc_algorithm v) (doc_time_limit v);
          eta = eta_of e secs
      in if doc_algorithm v \<notin> set [''ga'', ''double'', ''single'']
         then Inl (RuntimeError bad_algorithm)
         else
           (let ss = sol_size_override (doc_algorithm v) (doc_sol_size v);
                self = \<lparr> email = doc_email v, algorithm = doc_algorithm v, sol_size = ss,
                         z_min = doc_z_min v, z_max = doc_z_max v,
                         combine_mode = doc_combine_mode v, pop_size = doc_pop_size v,
                         time_limit = secs, database = doc_database v, fixed = doc_fixed v,
                         plotformat = doc_plotformat v, z_exclude = zex, z_lolim = zlo,
                         cdf = doc_cdf v, start_time = start, filepath = path,
                         filename = name, dbpath = dbp, mail = ml, time_eta = eta,
                         errors = [] \<rparr>
            in Inr (self\<lparr> errors := check_for_errors e self \<rparr>, fs'))))))))"

section \<open>Reference descriptions\<close>

text \<open>
  \<open>sep.join(words)\<close>, the inverse of \<open>split\<close>; it is not called by the code and
  serves to say what splitting on commas means.
\<close>

fun str_join :: "char \<Rightarrow> string list \<Rightarrow> string" where
  "str_join sep [] = []"
| "str_join sep [w] = w"
| "str_join sep (w # v # ws) = w @ sep # str_join sep (v # ws)"

text \<open>
  The six admission checks as the specification lists them: each is a condition on the
  finished configuration with its message, and the errors are the messages of the
  conditions that hold, in this order. \<open>check_for_errors\<close> above is the code; this is
  the description it is compared with.
\<close>

definition admission_checks :: "env \<Rightarrow> Config \<Rightarrow> (bool \<times> string) list" where
  "admission_checks e c =
     [(\<not> Star_ok e (filename c), ''There is something wrong with this stellar data.''),
      (sol_size c > 10, ''Gene sizes greater than 10 are not supported.''),
      (pop_size c > 1000, ''Population sizes over 1000 are not supported.''),
      (time_limit c > 60 \<and> \<not> mail c, ''Results must be emailed for time limit > 60s.''),
      (mail c \<and> \<not> validate_email_ok e (email c), email c @ '' is not a valid email.''),
      (plotformat c = ''pdf'' \<and> \<not> mail c, ''PDF plot format must be emailed.'')]"

definition admission_errors :: "env \<Rightarrow> Config \<Rightarrow> string list" where
  "admission_errors e c = map snd (filter fst (admission_checks e c))"

text \<open>
  What the specification asks of an element list \<open>zs\<close> parsed from \<open>raw\<close>: split on
  commas, resolve every word, drop the zeros, keep order and duplicates.
\<close>

definition parsed_from :: "env \<Rightarrow> string \<Rightarrow> int list \<Rightarrow> bool" where
  "parsed_from e raw zs =
     (let words = split raw (CHR '',''); resolved = map (ion_Z e) words
      in str_join (CHR '','') words = raw \<and>
         (\<forall>w \<in> set words. CHR '','' \<notin> set w) \<and>
         zs = filter (\<lambda>z. z \<noteq> 0) resolved \<and>
         subseq zs resolved \<and>
         (\<forall>z. z \<noteq> 0 \<longrightarrow> count_list zs z = count_list resolved z) \<and>
         0 \<notin> set zs)"

section \<open>Sample collaborators and a sample request\<close>

text \<open>
  Concrete stand-ins for the collaborators, used where a statement is evaluated on a
  concrete request: a decimal reader for \<open>int\<close>, a four-entry element table, a clock
  reading 2024-03-05 14:07:09, a star loader that knows the bundled star only.
\<close>

fun digits_value :: "nat \<Rightarrow> string \<Rightarrow> nat option" where
  "digits_value acc [] = Some acc"
| "digits_value acc (c # cs) =
     (if c \<in> set ''0123456789''
      then digits_value (10 * acc + (of_char c - 48)) cs
      else None)"

definition sample_int :: "string \<Rightarrow> int option" where
  "sample_int s =
     (case s of
        [] \<Rightarrow> None
      | c # cs \<Rightarrow>
          if c = CHR ''-''
          then (if cs = [] then None else map_option (\<lambda>n. - int n) (digits_value 0 cs))
          else map_option int (digits_value 0 s))"

definition sample_ion :: "string \<Rightarrow> int" where
  "sample_ion s =
     (if s = ''Li'' then 3 else if s = ''C'' then 6 else if s = ''N'' then 7
      else if s = ''O'' then 8 else 0)"

definition sample_env :: env where
  "sample_env =
     \<lparr> config_yml = Inr [''db_dir'' \<mapsto> ''/var/starfit/db''],
       now = \<lparr> year = 2024, month = 3, day = 5, hour = 14, minute = 7, second = 9 \<rparr>,
       py_int = sample_int,
       ion_Z = sample_ion,
       DATA_DIR = ''/opt/starfit/data'',
       time2human = (\<lambda>n. str_nat (nat n) @ '' sec''),
       Star_ok = (\<lambda>name. name = ''HE1327-2326.dat''),
       validate_email_ok = (\<lambda>a. CHR ''@'' \<in> set a),
       open_wb_ok = (\<lambda>path. True) \<rparr>"

definition sample_fields :: "string \<rightharpoonup> string" where
  "sample_fields =
     map_of [(''email'', []), (''algorithm'', ''ga''), (''sol_size'', ''12''),
             (''z_min'', ''1''), (''z_max'', ''30''), (''combine_mode'', ''1''),
             (''pop_size'', ''1500''), (''time_limit'', ''120''),
             (''database'', ''znuc2012.S4.star.el.y.stardb.gz''), (''fixed'', ''0''),
             (''plotformat'', ''pdf''), (''z_exclude'', ''Li,Xx,C''),
             (''z_lolim'', ''N,,N''), (''cdf'', ''1'')]"

definition sample_upload :: upload where
  "sample_upload = \<lparr> up_filename = Some ''star.dat'', up_file = ''Fe 7.5'' \<rparr>"

definition sample_form :: form where
  "sample_form = \<lparr> stardata = Some sample_upload, getfirst = sample_fields \<rparr>"

section \<open>Facts about the library functions\<close>

lemma split_from_nonempty: "split_from sep cur s \<noteq> []"
  by (induction s arbitrary: cur) auto

section \<open>What a successful construction returns\<close>

lemma check_for_errors_cong:
  "filename a = filename b \<Longrightarrow> sol_size a = sol_size b \<Longrightarrow> pop_size a = pop_size b \<Longrightarrow>
   time_limit a = time_limit b \<Longrightarrow> mail a = mail b \<Longrightarrow> email a = email b \<Longrightarrow>
   plotformat a = plotformat b \<Longrightarrow> check_for_errors e a = check_for_errors e b"
  by (simp add: check_for_errors_def)

lemma validate_SomeD:
  assumes "validate e conf = Some v"
  shows "doc_email v = coerce_str (conf ''email'')"
    and "doc_algorithm v = coerce_str (conf ''algorithm'')"
    and "coerce_int e (conf ''sol_size'') = Some (doc_sol_size v)"
    and "coerce_int e (conf ''pop_size'') = Some (doc_pop_size v)"
    and "coerce_int e (conf ''time_limit'') = Some (doc_time_limit v)"
    and "doc_database v = coerce_str (conf ''database'')"
    and "doc_plotformat v = coerce_str (conf ''plotformat'')"
    and "doc_z_exclude v = coerce_str (conf ''z_exclude'')"
    and "doc_z_lolim v = coerce_str (conf ''z_lolim'')"
  using assms by (auto simp: validate_def split: option.splits)

lemma Config_init_InrD:
  assumes "Config_init e frm fs = Inr (c, fs')"
  shows "\<exists>sd v path name db_dir.
           stardata frm = Some sd \<and>
           validate e (getfirst frm) = Some v \<and>
           save_files e sd (strftime (now e) ''%Y-%M-%d-%H-%M-%S'') fs = Inr ((path, name), fs') \<and>
           web_config e ''db_dir'' = Some db_dir \<and>
           doc_algorithm v \<in> {''ga'', ''double'', ''single''} \<and>
           email c = doc_email v \<and>
           algorithm c = doc_algorithm v \<and>
           sol_size c = sol_size_override (doc_algorithm v) (doc_sol_size v) \<and>
           pop_size c = doc_pop_size v \<and>
           time_limit c = time_limit_override (doc_algorithm v) (doc_time_limit v) \<and>
           database c = doc_database v \<and>
           plotformat c = doc_plotformat v \<and>
           z_exclude c = element_list e (doc_z_exclude v) \<and>
           z_lolim c = element_list e (doc_z_lolim v) \<and>
           start_time c = strftime (now e) ''%Y-%M-%d-%H-%M-%S'' \<and>
           filepath c = path \<and>
           filename c = name \<and>
           dbpath c = os_path_join db_dir [doc_database v] \<and>
           mail c = (doc_email v \<noteq> []) \<and>
           time_eta c = eta_of e (time_limit c) \<and>
           errors c = check_for_errors e c"
  using assms
  unfolding Config_init_def Let_def
  by (auto split: option.splits sum.splits prod.splits if_splits
           simp: web_config_def intro!: check_for_errors_cong)

section \<open>C1: the algorithm decides the search budget\<close>

text \<open>
  Claim C1. Whenever construction succeeds, the algorithm of the configuration is the
  coerced \<open>algorithm\<close> field of the form, and it overrides the budget fields: for
  \<open>single\<close> the solution size is 1 and the time limit 0, for \<open>double\<close> they are 2
  and 900, and for \<open>ga\<close> both are the coerced \<open>sol_size\<close> and \<open>time_limit\<close> fields
  of the form. Nothing is assumed about the raw \<open>sol_size\<close> and \<open>time_limit\<close>
  beyond that the request was accepted.
\<close>

theorem algorithm_overrides_budget:
  assumes "Config_init e frm fs = Inr (c, fs')"
  shows "algorithm c = coerce_str (getfirst frm ''algorithm'') \<and>
         (algorithm c = ''single'' \<longrightarrow> sol_size c = 1 \<and> time_limit c = 0) \<and>
         (algorithm c = ''double'' \<longrightarrow> sol_size c = 2 \<and> time_limit c = 900) \<and>
         (algorithm c = ''ga'' \<longrightarrow>
            coerce_int e (getfirst frm ''sol_size'') = Some (sol_size c) \<and>
            coerce_int e (getfirst frm ''time_limit'') = Some (time_limit c))"
proof -
  from Config_init_InrD [OF assms] obtain v where
    v: "validate e (getfirst frm) = Some v" and
    alg: "algorithm c = doc_algorithm v" and
    ss: "sol_size c = sol_size_override (doc_algorithm v) (doc_sol_size v)" and
    tl: "time_limit c = time_limit_override (doc_algorithm v) (doc_time_limit v)"
    by blast
  note d = validate_SomeD [OF v]
  show ?thesis
    using alg ss tl d(2,3,5)
    by (simp add: sol_size_override_def time_limit_override_def)
qed

text \<open>The sample request is accepted with each of the three algorithms.\<close>

lemmas sample_defs =
  Config_init_def web_config_def sample_form_def sample_upload_def sample_env_def sample_fields_def
  validate_def coerce_int_def coerce_str_def coerce_bool_def sample_int_def save_files_def
  os_path_join_def join_step_def startswith_def endswith_def Let_def

lemma sample_constructs:
  assumes "alg \<in> {''ga'', ''single'', ''double''}"
  shows "\<exists>c fs'. Config_init sample_env
           (sample_form\<lparr>getfirst := sample_fields(''algorithm'' \<mapsto> alg)\<rparr>) Map.empty = Inr (c, fs')"
  using assms by (auto simp: sample_defs)

lemma sample_fields_values:
  "sample_fields ''sol_size'' = Some ''12''"
  "sample_fields ''time_limit'' = Some ''120''"
  "sample_int ''12'' = Some 12"
  "sample_int ''120'' = Some 120"
  by (simp_all add: sample_fields_def sample_int_def)

theorem algorithm_overrides_budget_witness:
  "(\<exists>c fs'. Config_init sample_env
       (sample_form\<lparr>getfirst := sample_fields(''algorithm'' \<mapsto> ''single'')\<rparr>) Map.empty = Inr (c, fs')
       \<and> sol_size c = 1 \<and> time_limit c = 0) \<and>
   (\<exists>c fs'. Config_init sample_env
       (sample_form\<lparr>getfirst := sample_fields(''algorithm'' \<mapsto> ''double'')\<rparr>) Map.empty = Inr (c, fs')
       \<and> sol_size c = 2 \<and> time_limit c = 900) \<and>
   (\<exists>c fs'. Config_init sample_env
       (sample_form\<lparr>getfirst := sample_fields(''algorithm'' \<mapsto> ''ga'')\<rparr>) Map.empty = Inr (c, fs')
       \<and> sol_size c = 12 \<and> time_limit c = 120)"
proof (intro conjI)
  obtain c fs' where ev: "Config_init sample_env
       (sample_form\<lparr>getfirst := sample_fields(''algorithm'' \<mapsto> ''single'')\<rparr>) Map.empty = Inr (c, fs')"
    using sample_constructs [of "''single''"] by auto
  from algorithm_overrides_budget [OF ev]
  have "sol_size c = 1 \<and> time_limit c = 0" by (simp add: coerce_str_def)
  with ev show "\<exists>c fs'. Config_init sample_env
       (sample_form\<lparr>getfirst := sample_fields(''algorithm'' \<mapsto> ''single'')\<rparr>) Map.empty = Inr (c, fs')
       \<and> sol_size c = 1 \<and> time_limit c = 0" by blast
next
  obtain c fs' where ev: "Config_init sample_env
       (sample_form\<lparr>getfirst := sample_fields(''algorithm'' \<mapsto> ''double'')\<rparr>) Map.empty = Inr (c, fs')"
    using sample_constructs [of "''double''"] by auto
  from algorithm_overrides_budget [OF ev]
  have "sol_size c = 2 \<and> time_limit c = 900" by (simp add: coerce_str_def)
  with ev show "\<exists>c fs'. Config_init sample_env
       (sample_form\<lparr>getfirst := sample_fields(''algorithm'' \<mapsto> ''double'')\<rparr>) Map.empty = Inr (c, fs')
       \<and> sol_size c = 2 \<and> time_limit c = 900" by blast
next
  obtain c fs' where ev: "Config_init sample_env
       (sample_form\<lparr>getfirst := sample_fields(''algorithm'' \<mapsto> ''ga'')\<rparr>) Map.empty = Inr (c, fs')"
    using sample_constructs [of "''ga''"] by auto
  from algorithm_overrides_budget [OF ev]
  have "sol_size c = 12 \<and> time_limit c = 120"
    by (simp add: coerce_str_def coerce_int_def sample_fields_values sample_env_def)
  with ev show "\<exists>c fs'. Config_init sample_env
       (sample_form\<lparr>getfirst := sample_fields(''algorithm'' \<mapsto> ''ga'')\<rparr>) Map.empty = Inr (c, fs')
       \<and> sol_size c = 12 \<and> time_limit c = 120" by blast
qed

section \<open>C6: the element lists\<close>

lemma str_join_Cons: "ws \<noteq> [] \<Longrightarrow> str_join sep (w # ws) = w @ sep # str_join sep ws"
  by (cases ws) simp_all

lemma str_join_split_from: "str_join sep (split_from sep cur s) = rev cur @ s"
proof (induction s arbitrary: cur)
  case Nil
  show ?case by simp
next
  case (Cons c cs)
  show ?case
  proof (cases "c = sep")
    case True
    then show ?thesis
      by (simp add: str_join_Cons split_from_nonempty Cons.IH)
  next
    case False
    then show ?thesis by (simp add: Cons.IH)
  qed
qed

lemma split_from_no_sep:
  "sep \<notin> set cur \<Longrightarrow> \<forall>w \<in> set (split_from sep cur s). sep \<notin> set w"
proof (induction s arbitrary: cur)
  case Nil
  then show ?case by simp
next
  case (Cons c cs)
  have closed: "\<forall>w \<in> set (split_from sep [] cs). sep \<notin> set w"
    by (rule Cons.IH) simp
  have "c \<noteq> sep \<Longrightarrow> \<forall>w \<in> set (split_from sep (c # cur) cs). sep \<notin> set w"
    using Cons.prems by (intro Cons.IH) simp
  with closed Cons.prems show ?case by simp
qed

lemma split_joins_back: "str_join sep (split s sep) = s"
  by (simp add: split_def str_join_split_from)

lemma split_words_no_sep: "\<forall>w \<in> set (split s sep). sep \<notin> set w"
  unfolding split_def by (rule split_from_no_sep) simp

lemma count_list_filter_neq:
  "z \<noteq> 0 \<Longrightarrow> count_list (filter (\<lambda>z. z \<noteq> (0::int)) zs) z = count_list zs z"
  by (induction zs) auto

lemma parsed_from_element_list: "parsed_from e raw (element_list e raw)"
  unfolding parsed_from_def Let_def
  by (simp add: element_list_def count_list_filter_neq split_joins_back split_words_no_sep)

text \<open>
  Claim C6. Whenever construction succeeds, \<open>z_exclude\<close> and \<open>z_lolim\<close> of the
  configuration are parsed from the coerced form fields of the same names: the field is
  split on commas (the words joined by commas give the field back, and no word holds a
  comma), every word is resolved by the element lookup, exactly the zeros are dropped,
  and the order and the number of occurrences of every other atomic number are kept;
  so neither list holds 0.
\<close>

theorem element_lists_parsed:
  assumes "Config_init e frm fs = Inr (c, fs')"
  shows "parsed_from e (coerce_str (getfirst frm ''z_exclude'')) (z_exclude c) \<and>
         parsed_from e (coerce_str (getfirst frm ''z_lolim'')) (z_lolim c)"
proof -
  from Config_init_InrD [OF assms] obtain v where
    v: "validate e (getfirst frm) = Some v" and
    zex: "z_exclude c = element_list e (doc_z_exclude v)" and
    zlo: "z_lolim c = element_list e (doc_z_lolim v)"
    by blast
  note d = validate_SomeD [OF v]
  show ?thesis
    using zex zlo d(8,9) by (simp add: parsed_from_element_list)
qed

lemma sample_form_constructs:
  "\<exists>c fs'. Config_init sample_env sample_form Map.empty = Inr (c, fs')"
  by (simp add: sample_defs)

theorem element_lists_parsed_witness:
  "\<exists>c fs'. Config_init sample_env sample_form Map.empty = Inr (c, fs') \<and>
     getfirst sample_form ''z_exclude'' = Some ''Li,Xx,C'' \<and> z_exclude c = [3, 6] \<and>
     getfirst sample_form ''z_lolim'' = Some ''N,,N'' \<and> z_lolim c = [7, 7]"
proof -
  obtain c fs' where ev: "Config_init sample_env sample_form Map.empty = Inr (c, fs')"
    using sample_form_constructs by auto
  have raw: "getfirst sample_form ''z_exclude'' = Some ''Li,Xx,C''"
    "getfirst sample_form ''z_lolim'' = Some ''N,,N''"
    by (simp_all add: sample_form_def sample_fields_def)
  from element_lists_parsed [OF ev]
  have "z_exclude c = [3, 6] \<and> z_lolim c = [7, 7]"
    by (simp add: raw coerce_str_def parsed_from_def split_def sample_env_def sample_ion_def)
  with ev raw show ?thesis by blast
qed

section \<open>C4: the admission checks\<close>

lemma check_for_errors_refines: "check_for_errors e c = admission_errors e c"
  by (simp add: check_for_errors_def admission_errors_def admission_checks_def Let_def)

lemma Config_init_succeeds_iff:
  "(\<exists>c fs'. Config_init e frm fs = Inr (c, fs')) \<longleftrightarrow>
   (\<exists>sd v r db_dir.
      stardata frm = Some sd \<and> validate e (getfirst frm) = Some v \<and>
      save_files e sd (strftime (now e) ''%Y-%M-%d-%H-%M-%S'') fs = Inr r \<and>
      web_config e ''db_dir'' = Some db_dir \<and>
      doc_algorithm v \<in> {''ga'', ''double'', ''single''})"
  unfolding Config_init_def Let_def
  by (auto simp: web_config_def split: option.splits sum.splits prod.splits)

lemma coerce_int_validators:
  "coerce_int (e\<lparr>Star_ok := s, validate_email_ok := m\<rparr>) x = coerce_int e x"
  by (simp add: coerce_int_def split: option.splits)

lemma validators_not_consulted:
  "validate (e\<lparr>Star_ok := s, validate_email_ok := m\<rparr>) conf = validate e conf"
  "save_files (e\<lparr>Star_ok := s, validate_email_ok := m\<rparr>) sd start fs = save_files e sd start fs"
  by (simp_all add: validate_def coerce_int_validators save_files_def Let_def split: option.splits)

lemma web_config_validators:
  "web_config (e\<lparr>Star_ok := s, validate_email_ok := m\<rparr>) = web_config e"
  by (simp add: web_config_def)

text \<open>
  Claim C4. Whenever construction succeeds, the errors of the configuration are the
  messages of those of the six admission checks whose condition holds, in the order of
  the checks: each message is there or not by its own condition alone, whatever the
  other checks found. The checks do not decide whether construction succeeds: with the
  star loader and the email checker replaced by any others (failing ones included) the
  same request is still accepted.
\<close>

theorem admission_checks_accumulate:
  assumes "Config_init e frm fs = Inr (c, fs')"
  shows "errors c = admission_errors e c \<and>
         (\<forall>s m. \<exists>c' fs''. Config_init (e\<lparr>Star_ok := s, validate_email_ok := m\<rparr>) frm fs = Inr (c', fs''))"
proof
  from Config_init_InrD [OF assms] have "errors c = check_for_errors e c" by blast
  then show "errors c = admission_errors e c" by (simp add: check_for_errors_refines)
next
  have "\<exists>c fs'. Config_init e frm fs = Inr (c, fs')" using assms by blast
  then show "\<forall>s m. \<exists>c' fs''.
      Config_init (e\<lparr>Star_ok := s, validate_email_ok := m\<rparr>) frm fs = Inr (c', fs'')"
    unfolding Config_init_succeeds_iff
    by (simp add: validators_not_consulted web_config_validators)
qed

lemma sample_form_fields:
  assumes "Config_init sample_env sample_form Map.empty = Inr (c, fs')"
  shows "filename c = ''star.dat''" "sol_size c = 12" "pop_size c = 1500"
    "time_limit c = 120" "\<not> mail c" "email c = []" "plotformat c = ''pdf''"
  using assms
  by (auto simp: sample_defs sol_size_override_def time_limit_override_def)

lemma sample_email_constructs:
  "\<exists>c fs'. Config_init sample_env
     (sample_form\<lparr>getfirst := sample_fields(''email'' \<mapsto> ''nobody'')\<rparr>) Map.empty = Inr (c, fs')"
  by (simp add: sample_defs)

lemma sample_email_fields:
  assumes "Config_init sample_env
     (sample_form\<lparr>getfirst := sample_fields(''email'' \<mapsto> ''nobody'')\<rparr>) Map.empty = Inr (c, fs')"
  shows "filename c = ''star.dat''" "sol_size c = 12" "pop_size c = 1500"
    "time_limit c = 120" "mail c" "email c = ''nobody''" "plotformat c = ''pdf''"
  using assms
  by (auto simp: sample_defs sol_size_override_def time_limit_override_def)

theorem admission_checks_accumulate_witness:
  "(\<exists>c fs'. Config_init sample_env sample_form Map.empty = Inr (c, fs') \<and>
     errors c = [''There is something wrong with this stellar data.'',
                 ''Gene sizes greater than 10 are not supported.'',
                 ''Population sizes over 1000 are not supported.'',
                 ''Results must be emailed for time limit > 60s.'',
                 ''PDF plot format must be emailed.'']) \<and>
   (\<exists>c fs'. Config_init sample_env
       (sample_form\<lparr>getfirst := sample_fields(''email'' \<mapsto> ''nobody'')\<rparr>) Map.empty = Inr (c, fs') \<and>
     errors c = [''There is something wrong with this stellar data.'',
                 ''Gene sizes greater than 10 are not supported.'',
                 ''Population sizes over 1000 are not supported.'',
                 ''nobody is not a valid email.''])"
proof (intro conjI)
  obtain c fs' where ev: "Config_init sample_env sample_form Map.empty = Inr (c, fs')"
    using sample_form_constructs by auto
  from admission_checks_accumulate [OF ev]
  have "errors c = admission_errors sample_env c" by blast
  then have "errors c = [''There is something wrong with this stellar data.'',
                 ''Gene sizes greater than 10 are not supported.'',
                 ''Population sizes over 1000 are not supported.'',
                 ''Results must be emailed for time limit > 60s.'',
                 ''PDF plot format must be emailed.'']"
    by (simp add: admission_errors_def admission_checks_def sample_form_fields [OF ev]
        sample_env_def)
  with ev show "\<exists>c fs'. Config_init sample_env sample_form Map.empty = Inr (c, fs') \<and>
     errors c = [''There is something wrong with this stellar data.'',
                 ''Gene sizes greater than 10 are not supported.'',
                 ''Population sizes over 1000 are not supported.'',
                 ''Results must be emailed for time limit > 60s.'',
                 ''PDF plot format must be emailed.'']" by blast
next
  obtain c fs' where ev: "Config_init sample_env
       (sample_form\<lparr>getfirst := sample_fields(''email'' \<mapsto> ''nobody'')\<rparr>) Map.empty = Inr (c, fs')"
    using sample_email_constructs by auto
  from admission_checks_accumulate [OF ev]
  have "errors c = admission_errors sample_env c" by blast
  then have "errors c = [''There is something wrong with this stellar data.'',
                 ''Gene sizes greater than 10 are not supported.'',
                 ''Population sizes over 1000 are not supported.'',
                 ''nobody is not a valid email.'']"
    by (simp add: admission_errors_def admission_checks_def sample_email_fields [OF ev]
        sample_env_def)
  with ev show "\<exists>c fs'. Config_init sample_env
       (sample_form\<lparr>getfirst := sample_fields(''email'' \<mapsto> ''nobody'')\<rparr>) Map.empty = Inr (c, fs') \<and>
     errors c = [''There is something wrong with this stellar data.'',
                 ''Gene sizes greater than 10 are not supported.'',
                 ''Population sizes over 1000 are not supported.'',
                 ''nobody is not a valid email.'']" by blast
qed

section \<open>The messages are pairwise different\<close>

lemma append_eq_dropD: "xs @ ys = zs \<Longrightarrow> drop (length zs - length ys) zs = ys"
  by auto

lemma email_message_not_time_limit:
  "a @ '' is not a valid email.'' \<noteq> ''Results must be emailed for time limit > 60s.''"
proof
  assume "a @ '' is not a valid email.'' = ''Results must be emailed for time limit > 60s.''"
  from append_eq_dropD [OF this] show False by simp
qed

lemma email_message_not_stellar:
  "a @ '' is not a valid email.'' \<noteq> ''There is something wrong with this stellar data.''"
proof
  assume "a @ '' is not a valid email.'' = ''There is something wrong with this stellar data.''"
  from append_eq_dropD [OF this] show False by simp
qed

section \<open>C5: results of a long search must be emailed\<close>

lemma time_limit_message_iff:
  "''Results must be emailed for time limit > 60s.'' \<in> set (admission_errors e c) \<longleftrightarrow>
   time_limit c > 60 \<and> \<not> mail c"
  using email_message_not_time_limit [of "email c"]
  by (auto simp: admission_errors_def admission_checks_def)

text \<open>
  Claim C5. Whenever construction succeeds, the email and the algorithm of the
  configuration are the coerced \<open>email\<close> and \<open>algorithm\<close> fields of the form, the
  time limit is the coerced \<open>time_limit\<close> field after the override by the algorithm
  (900 for \<open>double\<close>, 0 for \<open>single\<close>), and \<open>mail\<close> says whether the email is
  non-empty. The errors hold "Results must be emailed for time limit > 60s." exactly
  when that time limit is above 60 and the email is empty. With the algorithm
  \<open>single\<close> the message is never there.
\<close>

theorem time_limit_needs_email:
  assumes "Config_init e frm fs = Inr (c, fs')"
  shows "email c = coerce_str (getfirst frm ''email'') \<and>
         algorithm c = coerce_str (getfirst frm ''algorithm'') \<and>
         (\<exists>given. coerce_int e (getfirst frm ''time_limit'') = Some given \<and>
            time_limit c = (if algorithm c = ''double'' then 900
                            else if algorithm c = ''single'' then 0 else given)) \<and>
         mail c = (email c \<noteq> []) \<and>
         (''Results must be emailed for time limit > 60s.'' \<in> set (errors c) \<longleftrightarrow>
            time_limit c > 60 \<and> email c = []) \<and>
         (algorithm c = ''single'' \<longrightarrow>
            ''Results must be emailed for time limit > 60s.'' \<notin> set (errors c))"
proof -
  from Config_init_InrD [OF assms] obtain v where
    v: "validate e (getfirst frm) = Some v" and
    em: "email c = doc_email v" and ml: "mail c = (doc_email v \<noteq> [])" and
    alg: "algorithm c = doc_algorithm v" and
    tl: "time_limit c = time_limit_override (doc_algorithm v) (doc_time_limit v)" and
    errs: "errors c = check_for_errors e c"
    by blast
  note d = validate_SomeD [OF v]
  have email: "email c = coerce_str (getfirst frm ''email'')"
    using em d(1) by simp
  have algo: "algorithm c = coerce_str (getfirst frm ''algorithm'')"
    using alg d(2) by simp
  have limit: "\<exists>given. coerce_int e (getfirst frm ''time_limit'') = Some given \<and>
            time_limit c = (if algorithm c = ''double'' then 900
                            else if algorithm c = ''single'' then 0 else given)"
    using tl alg d(5) by (simp add: time_limit_override_def)
  have mail: "mail c = (email c \<noteq> [])" using em ml by simp
  have iff: "''Results must be emailed for time limit > 60s.'' \<in> set (errors c) \<longleftrightarrow>
      time_limit c > 60 \<and> email c = []"
    using errs mail by (simp add: check_for_errors_refines time_limit_message_iff)
  have "algorithm c = ''single'' \<Longrightarrow> time_limit c = 0"
    using alg tl by (simp add: time_limit_override_def)
  with iff have single: "algorithm c = ''single'' \<longrightarrow>
      ''Results must be emailed for time limit > 60s.'' \<notin> set (errors c)"
    by simp
  from email algo limit mail iff single show ?thesis by blast
qed

text \<open>
  Two requests at the sample site, both with \<open>time_limit\<close> 120 and an empty
  \<open>email\<close>: with \<open>ga\<close> the limit stays 120 and the message is there; with
  \<open>single\<close> the limit is 0 and it is not.
\<close>

theorem time_limit_needs_email_witness:
  "(\<exists>c fs'. Config_init sample_env sample_form Map.empty = Inr (c, fs') \<and>
     getfirst sample_form ''algorithm'' = Some ''ga'' \<and>
     getfirst sample_form ''time_limit'' = Some ''120'' \<and>
     getfirst sample_form ''email'' = Some [] \<and>
     time_limit c = 120 \<and> email c = [] \<and> \<not> mail c \<and>
     ''Results must be emailed for time limit > 60s.'' \<in> set (errors c)) \<and>
   (\<exists>c fs'. Config_init sample_env
       (sample_form\<lparr>getfirst := sample_fields(''algorithm'' \<mapsto> ''single'')\<rparr>) Map.empty = Inr (c, fs') \<and>
     time_limit c = 0 \<and> email c = [] \<and>
     ''Results must be emailed for time limit > 60s.'' \<notin> set (errors c))"
proof (intro conjI)
  obtain c fs' where ev: "Config_init sample_env sample_form Map.empty = Inr (c, fs')"
    using sample_form_constructs by auto
  have raw: "getfirst sample_form ''algorithm'' = Some ''ga''"
    "getfirst sample_form ''time_limit'' = Some ''120''"
    "getfirst sample_form ''email'' = Some []"
    by (simp_all add: sample_form_def sample_fields_def)
  have given: "coerce_int sample_env (Some ''120'') = Some 120"
    by (simp add: coerce_int_def sample_env_def sample_int_def)
  from time_limit_needs_email [OF ev]
  have "time_limit c = 120 \<and> email c = [] \<and> \<not> mail c \<and>
     ''Results must be emailed for time limit > 60s.'' \<in> set (errors c)"
    by (auto simp: raw given coerce_str_def)
  with ev raw show "\<exists>c fs'. Config_init sample_env sample_form Map.empty = Inr (c, fs') \<and>
     getfirst sample_form ''algorithm'' = Some ''ga'' \<and>
     getfirst sample_form ''time_limit'' = Some ''120'' \<and>
     getfirst sample_form ''email'' = Some [] \<and>
     time_limit c = 120 \<and> email c = [] \<and> \<not> mail c \<and>
     ''Results must be emailed for time limit > 60s.'' \<in> set (errors c)" by blast
next
  let ?frm = "sample_form\<lparr>getfirst := sample_fields(''algorithm'' \<mapsto> ''single'')\<rparr>"
  obtain c fs' where ev: "Config_init sample_env ?frm Map.empty = Inr (c, fs')"
    using sample_constructs [of "''single''"] by auto
  have raw: "sample_fields ''email'' = Some []"
    by (simp add: sample_fields_def)
  from time_limit_needs_email [OF ev]
  have "time_limit c = 0 \<and> email c = [] \<and>
     ''Results must be emailed for time limit > 60s.'' \<notin> set (errors c)"
    by (auto simp: raw coerce_str_def)
  with ev show "\<exists>c fs'. Config_init sample_env ?frm Map.empty = Inr (c, fs') \<and>
     time_limit c = 0 \<and> email c = [] \<and>
     ''Results must be emailed for time limit > 60s.'' \<notin> set (errors c)" by blast
qed

section \<open>C7: the estimated time of arrival\<close>






section \<open>C10: a request without the stardata field\<close>

text \<open>
  Claim C10 as stated fails: the load of \<open>config.yml\<close> stands before the lookup of
  the stardata field. At a site whose \<open>config.yml\<close> cannot be opened, a request
  without the stardata field ends in the exception of the load (FileNotFoundError, an
  OSError), not in SystemExit.
\<close>

theorem missing_stardata_unloaded_counterexample:
  "stardata \<lparr> stardata = None, getfirst = sample_fields \<rparr> = None \<and>
   config_yml (sample_env\<lparr>config_yml := Inl (OSError ''config.yml'')\<rparr>)
     = Inl (OSError ''config.yml'') \<and>
   Config_init (sample_env\<lparr>config_yml := Inl (OSError ''config.yml'')\<rparr>)
     \<lparr> stardata = None, getfirst = sample_fields \<rparr> Map.empty = Inl (OSError ''config.yml'') \<and>
   Config_init (sample_env\<lparr>config_yml := Inl (OSError ''config.yml'')\<rparr>)
     \<lparr> stardata = None, getfirst = sample_fields \<rparr> Map.empty \<noteq> Inl SystemExit"
  by (simp add: Config_init_def)

text \<open>
  Claim C10, amended. When the form has no \<open>stardata\<close> field, the outcome is decided
  before the schema is consulted, whatever the other fields hold: once \<open>config.yml\<close>
  has loaded, construction ends in SystemExit (the process exits); when the load raises,
  construction ends in the exception of the load. So the "Bad form input" of the schema
  is not what ends construction, and no configuration with admission errors is returned.
\<close>

theorem missing_stardata_exits:
  assumes "stardata frm = None"
  shows "(\<forall>loaded. config_yml e = Inr loaded \<longrightarrow> Config_init e frm fs = Inl SystemExit) \<and>
         (\<forall>x. config_yml e = Inl x \<longrightarrow> Config_init e frm fs = Inl x) \<and>
         (\<forall>c fs'. Config_init e frm fs \<noteq> Inr (c, fs'))"
  using assms by (auto simp: Config_init_def split: sum.splits)

theorem missing_stardata_exits_witness:
  "stardata \<lparr> stardata = None, getfirst = Map.empty \<rparr> = None \<and>
   config_yml sample_env = Inr [''db_dir'' \<mapsto> ''/var/starfit/db''] \<and>
   validate sample_env Map.empty = None \<and>
   Config_init sample_env \<lparr> stardata = None, getfirst = Map.empty \<rparr> Map.empty = Inl SystemExit \<and>
   Config_init sample_env \<lparr> stardata = Some sample_upload, getfirst = Map.empty \<rparr> Map.empty
     = Inl (RuntimeError ''Bad form input'')"
proof -
  have none: "stardata \<lparr> stardata = None, getfirst = Map.empty \<rparr> = None" by simp
  have loaded: "config_yml sample_env = Inr [''db_dir'' \<mapsto> ''/var/starfit/db'']"
    by (simp add: sample_env_def)
  from missing_stardata_exits [OF none, of sample_env Map.empty] loaded
  have "Config_init sample_env \<lparr> stardata = None, getfirst = Map.empty \<rparr> Map.empty
      = Inl SystemExit"
    by blast
  moreover have "validate sample_env Map.empty = None"
    by (simp add: validate_def coerce_int_def)
  moreover have "Config_init sample_env
      \<lparr> stardata = Some sample_upload, getfirst = Map.empty \<rparr> Map.empty
      = Inl (RuntimeError ''Bad form input'')"
    by (simp add: Config_init_def validate_def coerce_int_def loaded)
  ultimately show ?thesis using none loaded by blast
qed

section \<open>C8: an algorithm that is none of ga, single, double\<close>

text \<open>
  Claim C8. When the coerced \<open>algorithm\<close> field of the form is none of \<open>ga\<close>,
  \<open>single\<close> and \<open>double\<close>, construction returns no configuration (so there is no
  errors list the failure could be collected into); and when the request gets as far as
  the check (the stardata field is there, the schema validates, the upload is saved and
  \<open>db_dir\<close> is configured) what is raised is the RuntimeError of the algorithm check.
\<close>

theorem bad_algorithm_is_fatal:
  assumes "coerce_str (getfirst frm ''algorithm'') \<notin> {''ga'', ''single'', ''double''}"
  shows "(\<forall>c fs'. Config_init e frm fs \<noteq> Inr (c, fs')) \<and>
         (\<forall>sd v r db_dir.
            stardata frm = Some sd \<and> validate e (getfirst frm) = Some v \<and>
            save_files e sd (strftime (now e) ''%Y-%M-%d-%H-%M-%S'') fs = Inr r \<and>
            web_config e ''db_dir'' = Some db_dir \<longrightarrow>
            Config_init e frm fs = Inl (RuntimeError bad_algorithm))"
proof (intro conjI allI impI)
  fix c fs'
  show "Config_init e frm fs \<noteq> Inr (c, fs')"
  proof
    assume ev: "Config_init e frm fs = Inr (c, fs')"
    from Config_init_InrD [OF ev] obtain v where
      v: "validate e (getfirst frm) = Some v" and
      ok: "doc_algorithm v \<in> {''ga'', ''double'', ''single''}"
      by blast
    from validate_SomeD(2) [OF v] ok assms show False by auto
  qed
next
  fix sd v r db_dir
  assume a: "stardata frm = Some sd \<and> validate e (getfirst frm) = Some v \<and>
            save_files e sd (strftime (now e) ''%Y-%M-%d-%H-%M-%S'') fs = Inr r \<and>
            web_config e ''db_dir'' = Some db_dir"
  with validate_SomeD(2) [of e "getfirst frm" v] assms
  have "doc_algorithm v \<notin> {''ga'', ''single'', ''double''}" by simp
  with a show "Config_init e frm fs = Inl (RuntimeError bad_algorithm)"
    unfolding Config_init_def Let_def
    by (auto simp: web_config_def split: prod.splits sum.splits)
qed

theorem bad_algorithm_is_fatal_witness:
  "coerce_str (getfirst (sample_form\<lparr>getfirst := sample_fields(''algorithm'' \<mapsto> ''simplex'')\<rparr>)
      ''algorithm'') = ''simplex'' \<and>
   Config_init sample_env
     (sample_form\<lparr>getfirst := sample_fields(''algorithm'' \<mapsto> ''simplex'')\<rparr>) Map.empty
     = Inl (RuntimeError bad_algorithm)"
proof -
  let ?frm = "sample_form\<lparr>getfirst := sample_fields(''algorithm'' \<mapsto> ''simplex'')\<rparr>"
  have raw: "coerce_str (getfirst ?frm ''algorithm'') = ''simplex''"
    by (simp add: coerce_str_def)
  then have bad: "coerce_str (getfirst ?frm ''algorithm'') \<notin> {''ga'', ''single'', ''double''}"
    by simp
  have reached: "\<exists>sd v r db_dir.
      stardata ?frm = Some sd \<and> validate sample_env (getfirst ?frm) = Some v \<and>
      save_files sample_env sd (strftime (now sample_env) ''%Y-%M-%d-%H-%M-%S'') Map.empty = Inr r \<and>
      web_config sample_env ''db_dir'' = Some db_dir"
    by (simp add: sample_defs)
  from bad_algorithm_is_fatal [OF bad, of sample_env Map.empty] reached
  have "Config_init sample_env ?frm Map.empty = Inl (RuntimeError bad_algorithm)"
    by blast
  with raw show ?thesis by blast
qed

section \<open>C9: the star loader is given the bare file name\<close>

lemma start_time_nonempty: "strftime dt ''%Y-%M-%d-%H-%M-%S'' \<noteq> []"
  by simp

lemma bundled_path_longer:
  "length (os_path_join d [''stars'', ''HE1327-2326.dat'']) > length ''HE1327-2326.dat''"
  by (simp add: os_path_join_def join_step_def startswith_def)

lemma upload_path_differs:
  assumes "start \<noteq> []"
  shows "os_path_join ''/tmp'' [name @ start] \<noteq> name"
  using assms by (auto simp: os_path_join_def join_step_def endswith_def)

lemma save_files_names:
  assumes "save_files e sd start fs = Inr ((path, name), fs')" and "start \<noteq> []"
  shows "path \<noteq> name"
    and "name = (case up_filename sd of None \<Rightarrow> ''HE1327-2326.dat''
                 | Some n \<Rightarrow> if n = [] then ''HE1327-2326.dat'' else n)"
proof -
  show "name = (case up_filename sd of None \<Rightarrow> ''HE1327-2326.dat''
                 | Some n \<Rightarrow> if n = [] then ''HE1327-2326.dat'' else n)"
    using assms(1) by (auto simp: save_files_def Let_def split: option.splits if_splits)
  show "path \<noteq> name"
  proof
    assume eq: "path = name"
    show False
    proof (cases "up_filename sd")
      case None
      with assms(1) eq bundled_path_longer [of "DATA_DIR e"] show False
        by (auto simp: save_files_def)
    next
      case (Some n)
      show False
      proof (cases "n = []")
        case True
        with Some assms(1) eq bundled_path_longer [of "DATA_DIR e"] show False
          by (auto simp: save_files_def)
      next
        case False
        with Some assms eq upload_path_differs [of start n] show False
          by (auto simp: save_files_def Let_def split: if_splits)
      qed
    qed
  qed
qed

lemma save_files_content:
  "save_files e (sd\<lparr>up_file := b\<rparr>) start fs = Inr ((path, name), fs') \<Longrightarrow>
   \<exists>fs''. save_files e (sd\<lparr>up_file := b'\<rparr>) start fs = Inr ((path, name), fs'')"
  by (auto simp: save_files_def Let_def split: option.splits if_splits)

lemma stellar_message_iff:
  "''There is something wrong with this stellar data.'' \<in> set (admission_errors e c) \<longleftrightarrow>
   \<not> Star_ok e (filename c)"
  using email_message_not_stellar [of "email c"]
  by (auto simp: admission_errors_def admission_checks_def)

text \<open>
  Claim C9. Whenever construction succeeds, the stellar-data message is among the errors
  exactly when the star loader rejects \<open>filename\<close>, the bare name: the name of the
  upload, or of the bundled star when the upload has no name. The loader is not given
  \<open>filepath\<close>, which always differs from \<open>filename\<close>; for a named upload the bytes
  are stored under \<open>filepath\<close>, and the same request with any other bytes uploaded is
  accepted with the same errors.
\<close>

theorem star_loader_gets_filename:
  assumes "Config_init e frm fs = Inr (c, fs')"
  shows "(''There is something wrong with this stellar data.'' \<in> set (errors c) \<longleftrightarrow>
            \<not> Star_ok e (filename c)) \<and>
         filename c \<noteq> filepath c \<and>
         (\<exists>sd. stardata frm = Some sd \<and>
            filename c = (case up_filename sd of None \<Rightarrow> ''HE1327-2326.dat''
                          | Some n \<Rightarrow> if n = [] then ''HE1327-2326.dat'' else n) \<and>
            (\<forall>n. up_filename sd = Some n \<and> n \<noteq> [] \<longrightarrow>
                 fs' (filepath c) = Some (up_file sd)) \<and>
            (\<forall>b. \<exists>c' fs''.
                 Config_init e (frm\<lparr>stardata := Some (sd\<lparr>up_file := b\<rparr>)\<rparr>) fs = Inr (c', fs'') \<and>
                 filename c' = filename c \<and> errors c' = errors c))"
proof -
  let ?start = "strftime (now e) ''%Y-%M-%d-%H-%M-%S''"
  from Config_init_InrD [OF assms] obtain sd v path name db_dir where
    sd: "stardata frm = Some sd" and
    v: "validate e (getfirst frm) = Some v" and
    sv: "save_files e sd ?start fs = Inr ((path, name), fs')" and
    db: "web_config e ''db_dir'' = Some db_dir" and
    alg: "doc_algorithm v \<in> {''ga'', ''double'', ''single''}" and
    fields: "email c = doc_email v"
      "sol_size c = sol_size_override (doc_algorithm v) (doc_sol_size v)"
      "pop_size c = doc_pop_size v"
      "time_limit c = time_limit_override (doc_algorithm v) (doc_time_limit v)"
      "plotformat c = doc_plotformat v"
      "mail c = (doc_email v \<noteq> [])" and
    fp: "filepath c = path" and fn: "filename c = name" and
    errs: "errors c = check_for_errors e c"
    by blast
  have msg: "''There is something wrong with this stellar data.'' \<in> set (errors c) \<longleftrightarrow>
      \<not> Star_ok e (filename c)"
    using errs by (simp add: check_for_errors_refines stellar_message_iff)
  have ne: "filename c \<noteq> filepath c"
    using save_files_names(1) [OF sv start_time_nonempty] fp fn by simp
  have nm: "filename c = (case up_filename sd of None \<Rightarrow> ''HE1327-2326.dat''
                          | Some n \<Rightarrow> if n = [] then ''HE1327-2326.dat'' else n)"
    using save_files_names(2) [OF sv start_time_nonempty] fn by simp
  have stored: "\<forall>n. up_filename sd = Some n \<and> n \<noteq> [] \<longrightarrow> fs' (filepath c) = Some (up_file sd)"
    using sv fp by (auto simp: save_files_def Let_def split: if_splits)
  have other: "\<exists>c' fs''.
      Config_init e (frm\<lparr>stardata := Some (sd\<lparr>up_file := b\<rparr>)\<rparr>) fs = Inr (c', fs'') \<and>
      filename c' = filename c \<and> errors c' = errors c" for b
  proof -
    let ?frm = "frm\<lparr>stardata := Some (sd\<lparr>up_file := b\<rparr>)\<rparr>"
    have "save_files e (sd\<lparr>up_file := up_file sd\<rparr>) ?start fs = Inr ((path, name), fs')"
      using sv by simp
    from save_files_content [OF this, of b] obtain fs'' where
      sv': "save_files e (sd\<lparr>up_file := b\<rparr>) ?start fs = Inr ((path, name), fs'')"
      by blast
    have "\<exists>c' fs''. Config_init e ?frm fs = Inr (c', fs'')"
      unfolding Config_init_succeeds_iff using v sv' db alg by simp
    then obtain c' fs3 where ev': "Config_init e ?frm fs = Inr (c', fs3)" by blast
    from Config_init_InrD [OF ev'] obtain v' path' name' where
      v': "validate e (getfirst ?frm) = Some v'" and
      sv2: "save_files e (sd\<lparr>up_file := b\<rparr>) ?start fs = Inr ((path', name'), fs3)" and
      fields': "email c' = doc_email v'"
        "sol_size c' = sol_size_override (doc_algorithm v') (doc_sol_size v')"
        "pop_size c' = doc_pop_size v'"
        "time_limit c' = time_limit_override (doc_algorithm v') (doc_time_limit v')"
        "plotformat c' = doc_plotformat v'"
        "mail c' = (doc_email v' \<noteq> [])" and
      fn': "filename c' = name'" and
      errs': "errors c' = check_for_errors e c'"
      by auto
    from v v' have same: "v' = v" by simp
    from sv' sv2 have name: "name' = name" by simp
    have "check_for_errors e c' = check_for_errors e c"
      by (rule check_for_errors_cong) (simp_all add: fields fields' same fn fn' name)
    with errs errs' fn fn' name ev' show ?thesis by auto
  qed
  from msg ne sd nm stored other show ?thesis by blast
qed

theorem star_loader_gets_filename_witness:
  "\<exists>c fs'. Config_init sample_env sample_form Map.empty = Inr (c, fs') \<and>
     filename c = ''star.dat'' \<and> filename c \<noteq> filepath c \<and>
     Star_ok sample_env ''star.dat'' = False \<and>
     ''There is something wrong with this stellar data.'' \<in> set (errors c)"
proof -
  obtain c fs' where ev: "Config_init sample_env sample_form Map.empty = Inr (c, fs')"
    using sample_form_constructs by auto
  have rej: "Star_ok sample_env ''star.dat'' = False" by (simp add: sample_env_def)
  from star_loader_gets_filename [OF ev]
  have "filename c \<noteq> filepath c \<and>
     ''There is something wrong with this stellar data.'' \<in> set (errors c)"
    by (simp add: sample_form_fields [OF ev] rej)
  with ev rej sample_form_fields(1) [OF ev] show ?thesis by blast
qed

section \<open>C2: the database path\<close>

text \<open>
  Claim C2 as stated fails. At the sample site (\<open>db_dir\<close> is \<open>/var/starfit/db\<close>) a request whose \<open>database\<close>
  field is \<open>/etc/passwd\<close> is accepted, and its \<open>dbpath\<close> is \<open>/etc/passwd\<close>: the
  absolute value of the field, outside \<open>db_dir\<close>.
\<close>

theorem dbpath_absolute_counterexample:
  "web_config sample_env ''db_dir'' = Some ''/var/starfit/db'' \<and>
   getfirst (sample_form\<lparr>getfirst := sample_fields(''database'' \<mapsto> ''/etc/passwd'')\<rparr>) ''database''
     = Some ''/etc/passwd'' \<and>
   map_sum id (dbpath \<circ> fst)
     (Config_init sample_env
        (sample_form\<lparr>getfirst := sample_fields(''database'' \<mapsto> ''/etc/passwd'')\<rparr>) Map.empty)
     = Inr ''/etc/passwd'' \<and>
   ''/etc/passwd'' \<noteq> ''/var/starfit/db'' @ ''/'' @ ''/etc/passwd'' \<and>
   \<not> startswith ''/etc/passwd'' ''/var/starfit/db''"
  by (simp add: sample_defs)

text \<open>
  Claim C2, amended. Whenever construction succeeds, \<open>db_dir\<close> is configured, the
  database of the configuration is the coerced \<open>database\<close> field of the form, and
  \<open>dbpath\<close> is \<open>os.path.join(db_dir, database)\<close>: for a database that does not start
  with \<open>/\<close> and a non-empty \<open>db_dir\<close> it is \<open>db_dir\<close>, a \<open>/\<close> unless \<open>db_dir\<close>
  ends with one, and the database, so it starts with \<open>db_dir\<close>; for a database that
  starts with \<open>/\<close> (or an empty \<open>db_dir\<close>) it is the database itself.
\<close>

theorem dbpath_is_joined:
  assumes "Config_init e frm fs = Inr (c, fs')"
  shows "\<exists>db_dir. web_config e ''db_dir'' = Some db_dir \<and>
           database c = coerce_str (getfirst frm ''database'') \<and>
           dbpath c = os_path_join db_dir [database c] \<and>
           (startswith (database c) ''/'' \<or> db_dir = [] \<longrightarrow> dbpath c = database c) \<and>
           (\<not> startswith (database c) ''/'' \<and> db_dir \<noteq> [] \<longrightarrow>
              dbpath c = (if endswith db_dir ''/'' then db_dir @ database c
                          else db_dir @ ''/'' @ database c) \<and>
              startswith (dbpath c) db_dir)"
proof -
  from Config_init_InrD [OF assms] obtain v db_dir where
    v: "validate e (getfirst frm) = Some v" and
    db: "web_config e ''db_dir'' = Some db_dir" and
    dbn: "database c = doc_database v" and
    dbp: "dbpath c = os_path_join db_dir [doc_database v]"
    by blast
  have raw: "database c = coerce_str (getfirst frm ''database'')"
    using dbn validate_SomeD(6) [OF v] by simp
  have joined: "dbpath c = os_path_join db_dir [database c]"
    using dbp dbn by simp
  have abs: "startswith (database c) ''/'' \<or> db_dir = [] \<longrightarrow> dbpath c = database c"
    using joined by (auto simp: os_path_join_def join_step_def)
  have rel: "\<not> startswith (database c) ''/'' \<and> db_dir \<noteq> [] \<longrightarrow>
              dbpath c = (if endswith db_dir ''/'' then db_dir @ database c
                          else db_dir @ ''/'' @ database c) \<and>
              startswith (dbpath c) db_dir"
    using joined by (auto simp: os_path_join_def join_step_def startswith_def)
  from db raw joined abs rel show ?thesis by blast
qed

theorem dbpath_is_joined_witness:
  "\<exists>c fs'. Config_init sample_env sample_form Map.empty = Inr (c, fs') \<and>
     web_config sample_env ''db_dir'' = Some ''/var/starfit/db'' \<and>
     database c = ''znuc2012.S4.star.el.y.stardb.gz'' \<and>
     dbpath c = ''/var/starfit/db/znuc2012.S4.star.el.y.stardb.gz''"
proof -
  obtain c fs' where ev: "Config_init sample_env sample_form Map.empty = Inr (c, fs')"
    using sample_form_constructs by auto
  have db: "web_config sample_env ''db_dir'' = Some ''/var/starfit/db''"
    by (simp add: sample_env_def web_config_def)
  have raw: "coerce_str (getfirst sample_form ''database'') = ''znuc2012.S4.star.el.y.stardb.gz''"
    by (simp add: sample_form_def sample_fields_def coerce_str_def)
  from dbpath_is_joined [OF ev] db raw
  have "database c = ''znuc2012.S4.star.el.y.stardb.gz'' \<and>
     dbpath c = ''/var/starfit/db/znuc2012.S4.star.el.y.stardb.gz''"
    by (auto simp: startswith_def endswith_def)
  with ev db show ?thesis by blast
qed

section \<open>C3: the name of the stored upload\<close>

text \<open>
  Claim C3, evaluated on the sample request. The clock reads 2024-03-05 14:07:09 and
  the upload is named \<open>star.dat\<close>. The format \<open>%Y-%M-%d-%H-%M-%S\<close> of the code puts
  the minute where the month belongs: the bytes are stored under
  \<open>/tmp/star.dat2024-07-05-14-07-09\<close>, and nothing is stored under the name with the
  time as year, month, day, hour, minute, second, \<open>/tmp/star.dat2024-03-05-14-07-09\<close>.
\<close>

theorem upload_name_has_minute_for_month:
  "now sample_env = \<lparr> year = 2024, month = 3, day = 5, hour = 14, minute = 7, second = 9 \<rparr> \<and>
   stardata sample_form = Some \<lparr> up_filename = Some ''star.dat'', up_file = ''Fe 7.5'' \<rparr> \<and>
   strftime (now sample_env) ''%Y-%m-%d-%H-%M-%S'' = ''2024-03-05-14-07-09'' \<and>
   map_sum id (start_time \<circ> fst) (Config_init sample_env sample_form Map.empty)
     = Inr ''2024-07-05-14-07-09'' \<and>
   map_sum id (filepath \<circ> fst) (Config_init sample_env sample_form Map.empty)
     = Inr ''/tmp/star.dat2024-07-05-14-07-09'' \<and>
   map_sum id (\<lambda>r. snd r ''/tmp/star.dat2024-07-05-14-07-09'')
     (Config_init sample_env sample_form Map.empty) = Inr (Some ''Fe 7.5'') \<and>
   map_sum id (\<lambda>r. snd r ''/tmp/star.dat2024-03-05-14-07-09'')
     (Config_init sample_env sample_form Map.empty) = Inr None"
  by (simp add: sample_defs directive_def zero_pad_def str_nat.simps digit_char_def)

end
